theory Spec2Isabelle
  imports Main "HOL-Library.Multiset"
begin

section \<open>Values, errors and strings shared by the three tree modules\<close>

text \<open>
  A JavaScript value as far as the document code looks at it: the \<open>_id\<close> of a document is
  a string or a driver ObjectID, any other field holds anything. Only truthiness and the
  string conversion of a template literal are ever asked of a value.
\<close>

datatype jsval = Undefined | Null | Bool bool | Num int | Str string | ObjectID string

text \<open>JavaScript truthiness: what \<open>!v\<close> and \<open>v && ...\<close> test.\<close>

fun truthy :: "jsval \<Rightarrow> bool" where
  "truthy Undefined = False"
| "truthy Null = False"
| "truthy (Bool b) = b"
| "truthy (Num n) = (n \<noteq> 0)"
| "truthy (Str s) = (s \<noteq> [])"
| "truthy (ObjectID h) = True"

fun string_of_nat :: "nat \<Rightarrow> string" where
  "string_of_nat n =
     (if n < 10 then [char_of (48 + n)]
      else string_of_nat (n div 10) @ [char_of (48 + n mod 10)])"

text \<open>\<open>String(v)\<close>, as a template literal \<open>${v}\<close> converts a value.\<close>

fun String :: "jsval \<Rightarrow> string" where
  "String Undefined = ''undefined''"
| "String Null = ''null''"
| "String (Bool b) = (if b then ''true'' else ''false'')"
| "String (Num n) = (if n < 0 then ''-'' @ string_of_nat (nat (- n)) else string_of_nat (nat n))"
| "String (Str s) = s"
| "String (ObjectID h) = h"

text \<open>
  What a \<open>throw\<close> carries: a plain \<open>Error\<close> with its message (the driver's and the
  network's failures are such errors too), or the library's \<open>UserCancelledError\<close>, a
  class of its own.
\<close>

datatype error = Error string | UserCancelledError

definition sq :: string where
  "sq = [CHR 0x27]"

definition dq :: string where
  "dq = [CHR 0x22]"

section \<open>MongoDocumentTreeItem: update and delete of one document\<close>

text \<open>
  A document (\<open>IMongoDocument\<close>) is an object: its fields in order, each key once.
  \<open>get_field d k\<close> is \<open>d[k]\<close>, \<open>undefined\<close> for a key the object lacks; \<open>omit\<close> is
  underscore's \<open>_.omit(d, k)\<close>.
\<close>

type_synonym document = "(string \<times> jsval) list"

definition get_field :: "document \<Rightarrow> string \<Rightarrow> jsval" where
  "get_field d k = (case map_of d k of None \<Rightarrow> Undefined | Some v \<Rightarrow> v)"

definition omit :: "document \<Rightarrow> string \<Rightarrow> document" where
  "omit d k = filter (\<lambda>kv. fst kv \<noteq> k) d"

text \<open>
  The driver's \<open>Collection\<close>, by the two calls the tree item makes. \<open>updateOne\<close> takes the
  \<open>_id\<close> of the filter \<open>{_id: ...}\<close> and the update payload and answers with
  \<open>modifiedCount\<close>; \<open>deleteOne\<close> takes the \<open>_id\<close> of the filter and answers with
  \<open>deletedCount\<close> (optional in the driver's result type). Either may reject.
\<close>

record collection =
  updateOne :: "jsval \<Rightarrow> document \<Rightarrow> error + nat"
  deleteOne :: "jsval \<Rightarrow> error + nat option"

text \<open>The calls that leave the tree item, in the order they are made.\<close>

datatype call =
    ShowWarningMessage string
  | UpdateOne jsval document
  | DeleteOne jsval

text \<open>What the user answers to the modal warning; \<open>Dismissed\<close> is the \<open>undefined\<close> of a closed dialog.\<close>

datatype dialog_result = DeleteResponse | Cancel | Dismissed

text \<open>
  The static \<open>MongoDocumentTreeItem.update(collection, newDocument)\<close>: the result, and the
  calls made on the collection.
\<close>

definition MongoDocumentTreeItem_update ::
  "collection \<Rightarrow> document \<Rightarrow> (error + document) \<times> call list" where
  "MongoDocumentTreeItem_update coll newDocument =
     (if \<not> truthy (get_field newDocument ''_id'')
      then (Inl (Error (''The '' @ dq @ ''_id'' @ dq @ '' field is required to update a document.'')), [])
      else
        let filter_id = get_field newDocument ''_id'';
            payload = omit newDocument ''_id''
        in (case updateOne coll filter_id payload of
              Inl e \<Rightarrow> (Inl e, [UpdateOne filter_id payload])
            | Inr modifiedCount \<Rightarrow>
                if modifiedCount \<noteq> 1
                then (Inl (Error (''Failed to update document with _id '' @ sq
                                   @ String (get_field newDocument ''_id'') @ sq @ ''.'')),
                      [UpdateOne filter_id payload])
                else (Inr newDocument, [UpdateOne filter_id payload])))"

text \<open>
  \<open>deleteTreeItemImpl\<close> of a document node with the given label and document, under a
  user who answers \<open>ui message\<close> to the modal dialog.
\<close>

record document_node =
  node_label :: string
  node_document :: document

definition delete_message :: "document_node \<Rightarrow> string" where
  "delete_message node =
     ''Are you sure you want to delete document '' @ sq @ node_label node @ sq @ ''?''"

definition MongoDocumentTreeItem_deleteTreeItemImpl ::
  "(string \<Rightarrow> dialog_result) \<Rightarrow> collection \<Rightarrow> document_node \<Rightarrow> (error + unit) \<times> call list" where
  "MongoDocumentTreeItem_deleteTreeItemImpl ui coll node =
     (let message = delete_message node;
          dialogResult = ui message
      in if dialogResult = DeleteResponse
         then (case deleteOne coll (get_field (node_document node) ''_id'') of
                 Inl e \<Rightarrow>
                   (Inl e, [ShowWarningMessage message,
                            DeleteOne (get_field (node_document node) ''_id'')])
               | Inr deletedCount \<Rightarrow>
                   if deletedCount \<noteq> Some 1
                   then (Inl (Error (''Failed to delete document with _id '' @ sq
                                      @ String (get_field (node_document node) ''_id'') @ sq @ ''.'')),
                         [ShowWarningMessage message,
                          DeleteOne (get_field (node_document node) ''_id'')])
                   else (Inr (), [ShowWarningMessage message,
                                  DeleteOne (get_field (node_document node) ''_id'')]))
         else (Inl UserCancelledError, [ShowWarningMessage message]))"

text \<open>Sample collections for the worked examples: one that reports the given counts.\<close>

definition collection_reporting :: "nat \<Rightarrow> nat option \<Rightarrow> collection" where
  "collection_reporting modified deleted =
     \<lparr>updateOne = (\<lambda>filter_id payload. Inr modified), deleteOne = (\<lambda>filter_id. Inr deleted)\<rparr>"

definition answering :: "dialog_result \<Rightarrow> string \<Rightarrow> dialog_result" where
  "answering r message = r"

section \<open>Account nodes\<close>

text \<open>
  The enumeration \<open>API\<close> of the experiences module, whose four members
  \<open>createTreeItem\<close> switches over. A stored record is read back from JSON unchecked, so
  at run time the value may be any other string: \<open>Unrecognized\<close>, which only the
  \<open>default\<close> branch of that switch meets.
\<close>

datatype API = MongoDB | Graph | Table | DocumentDB | Unrecognized string

text \<open>The four account classes an attached node is an instance of.\<close>

datatype account_class =
    MongoAccountTreeItem
  | DocDBAccountTreeItem
  | GraphAccountTreeItem
  | TableAccountTreeItem

text \<open>
  An account node, by the fields the tree code reads: \<open>id\<close>, the library's \<open>fullId\<close> (the
  path of the node under its parent), \<open>label\<close>, the class, the connection string (what the
  secret store answered, \<open>null\<close> for a missing entry) and \<open>root.isEmulator\<close>, which is
  \<open>undefined\<close> when the constructor was given none.
\<close>

record account =
  node_id :: string
  fullId :: string
  label :: string
  node_class :: account_class
  connectionString :: "string option"
  isEmulator :: "bool option"

section \<open>MongoAccountTreeItem: listing the databases of an account\<close>

text \<open>\<open>IDatabaseInfo\<close>: both fields are optional.\<close>

record database_info =
  name :: "string option"
  empty :: "bool option"

type_synonym db = nat

text \<open>
  What the listing reaches outside the class: the Mongo client (\<open>connectToMongoClient\<close>
  answers with a connection or rejects, \<open>db.admin().listDatabases()\<close> likewise),
  \<open>getDatabaseNameFromConnectionString\<close>, and the library's \<open>parseError\<close>, of which the
  \<open>catch\<close> block reads \<open>parseError(error).message\<close>: the message as the library parses
  it, which need not be the raw \<open>error.message\<close> (a structured message is unpacked).
  None of them is part of the sources, so they are parameters.
\<close>

record mongo_client =
  connectToMongoClient :: "string \<Rightarrow> error + db"
  getDatabaseNameFromConnectionString :: "string \<Rightarrow> string option"
  listDatabases :: "db \<Rightarrow> error + database_info list"
  parseError_message :: "error \<Rightarrow> string"

datatype mongo_call = Connect string | ListDatabases db | Close db

text \<open>\<open>new MongoDatabaseTreeItem(parent, databaseName, connectionString)\<close>.\<close>

record database_item =
  parent_id :: string
  databaseName :: "string option"
  database_connectionString :: "string option"

definition toLowerCase_char :: "char \<Rightarrow> char" where
  "toLowerCase_char c =
     (case map_of (zip ''ABCDEFGHIJKLMNOPQRSTUVWXYZ'' ''abcdefghijklmnopqrstuvwxyz'') c of
        None \<Rightarrow> c
      | Some l \<Rightarrow> l)"

definition toLowerCase :: "string \<Rightarrow> string" where
  "toLowerCase s = map toLowerCase_char s"

text \<open>\<open>s.includes(sub)\<close>: \<open>sub\<close> occurs in \<open>s\<close>.\<close>

fun includes_str :: "string \<Rightarrow> string \<Rightarrow> bool" where
  "includes_str [] sub = (sub = [])"
| "includes_str (c # cs) sub = (take (length sub) (c # cs) = sub \<or> includes_str cs sub)"

text \<open>
  The filter's test, negated in the source:
  \<open>database.name && database.name.toLowerCase() === "admin" && database.empty\<close>.
\<close>

definition admin_and_empty :: "database_info \<Rightarrow> bool" where
  "admin_and_empty database =
     (case name database of
        None \<Rightarrow> False
      | Some n \<Rightarrow> n \<noteq> [] \<and> toLowerCase n = ''admin'' \<and> empty database = Some True)"

definition database_node :: "account \<Rightarrow> database_info \<Rightarrow> database_item" where
  "database_node acct database =
     \<lparr>parent_id = node_id acct, databaseName = name database,
      database_connectionString = connectionString acct\<rparr>"

text \<open>
  The \<open>try\<close> block of \<open>loadMoreChildrenImpl\<close>: its result, the connection \<open>db\<close> holds when the
  block is left, and the calls made.
\<close>

definition loadMoreChildren_try ::
  "mongo_client \<Rightarrow> account \<Rightarrow> (error + database_item list) \<times> db option \<times> mongo_call list" where
  "loadMoreChildren_try client acct =
     (case connectionString acct of
        None \<Rightarrow> (Inl (Error ''Missing connection string''), None, [])
      | Some cs \<Rightarrow>
          if cs = [] then (Inl (Error ''Missing connection string''), None, [])
          else (case connectToMongoClient client cs of
                  Inl e \<Rightarrow> (Inl e, None, [Connect cs])
                | Inr db \<Rightarrow>
                    (case getDatabaseNameFromConnectionString client cs of
                       Some databaseInConnectionString \<Rightarrow>
                         if databaseInConnectionString \<noteq> [] \<and> isEmulator acct \<noteq> Some True
                         then (Inr (map (database_node acct)
                                      (filter (\<lambda>database. \<not> admin_and_empty database)
                                         [\<lparr>name = Some databaseInConnectionString, empty = Some False\<rparr>])),
                               Some db, [Connect cs])
                         else (case listDatabases client db of
                                 Inl e \<Rightarrow> (Inl e, Some db, [Connect cs, ListDatabases db])
                               | Inr databases \<Rightarrow>
                                   (Inr (map (database_node acct)
                                          (filter (\<lambda>database. \<not> admin_and_empty database) databases)),
                                    Some db, [Connect cs, ListDatabases db]))
                     | None \<Rightarrow>
                         (case listDatabases client db of
                            Inl e \<Rightarrow> (Inl e, Some db, [Connect cs, ListDatabases db])
                          | Inr databases \<Rightarrow>
                              (Inr (map (database_node acct)
                                     (filter (\<lambda>database. \<not> admin_and_empty database) databases)),
                               Some db, [Connect cs, ListDatabases db])))))"

definition emulator_guidance :: string where
  "emulator_guidance =
     ''Unable to reach emulator. Please ensure it is started and writing to the appropriate port. Then try again.''
     @ [CHR 0x0A]"

text \<open>
  \<open>error.message = m\<close>: the same object with another message. It keeps its class; for a
  \<open>UserCancelledError\<close> the datatype carries no message.
\<close>

fun with_message :: "error \<Rightarrow> string \<Rightarrow> error" where
  "with_message (Error old) m = Error m"
| "with_message UserCancelledError m = UserCancelledError"

text \<open>The \<open>catch\<close> block: the error it throws on.\<close>

definition loadMoreChildren_catch :: "mongo_client \<Rightarrow> account \<Rightarrow> error \<Rightarrow> error" where
  "loadMoreChildren_catch client acct err =
     (let message = parseError_message client err
      in if isEmulator acct = Some True \<and> includes_str message ''ECONNREFUSED''
         then with_message err (emulator_guidance @ message)
         else err)"

text \<open>The \<open>finally\<close> block: \<open>if (db) db.close()\<close>.\<close>

definition loadMoreChildren_finally :: "db option \<Rightarrow> mongo_call list" where
  "loadMoreChildren_finally db = (case db of None \<Rightarrow> [] | Some d \<Rightarrow> [Close d])"

definition MongoAccountTreeItem_loadMoreChildrenImpl ::
  "mongo_client \<Rightarrow> account \<Rightarrow> (error + database_item list) \<times> mongo_call list" where
  "MongoAccountTreeItem_loadMoreChildrenImpl client acct =
     (case loadMoreChildren_try client acct of
        (Inl err, db, calls) \<Rightarrow>
          (Inl (loadMoreChildren_catch client acct err), calls @ loadMoreChildren_finally db)
      | (Inr children, db, calls) \<Rightarrow> (Inr children, calls @ loadMoreChildren_finally db))"

text \<open>
  Sample clients and accounts for the worked examples. \<open>sample_fullId\<close> is a \<open>fullId\<close>
  getter of the library's kind: the id, with a leading slash if it has none, under the
  root's path. \<open>sample_parseError\<close> unpacks the one structured message of the examples
  and gives every other message as it is.
\<close>

definition sample_fullId :: "string \<Rightarrow> string" where
  "sample_fullId i = ''/cosmosDBAttachedAccounts'' @ (if take 1 i = ''/'' then i else ''/'' @ i)"

definition sample_account :: "string \<Rightarrow> string option \<Rightarrow> bool option \<Rightarrow> account" where
  "sample_account i cs emu =
     \<lparr>node_id = i, fullId = sample_fullId i, label = i,
      node_class = MongoAccountTreeItem, connectionString = cs, isEmulator = emu\<rparr>"

definition structured_refusal :: string where
  "structured_refusal =
     ''{'' @ dq @ ''message'' @ dq @ '':'' @ dq @ ''connect ECONNREFUSED 127.0.0.1:10255'' @ dq @ ''}''"

definition sample_parseError :: "error \<Rightarrow> string" where
  "sample_parseError err =
     (case err of
        Error m \<Rightarrow> if m = structured_refusal then ''connect ECONNREFUSED 127.0.0.1:10255'' else m
      | UserCancelledError \<Rightarrow> ''Operation cancelled.'')"

definition sample_client ::
  "(error + db) \<Rightarrow> string option \<Rightarrow> (error + database_info list) \<Rightarrow> mongo_client" where
  "sample_client connected embedded listing =
     \<lparr>connectToMongoClient = (\<lambda>cs. connected),
      getDatabaseNameFromConnectionString = (\<lambda>cs. embedded),
      listDatabases = (\<lambda>d. listing),
      parseError_message = sample_parseError\<rparr>"

section \<open>AttachedAccountsTreeItem: the registry of attached accounts\<close>

text \<open>
  An element of the persisted array: a bare id string (the legacy form), or an
  \<open>IPersistedAccount\<close> with its \<open>id\<close>, \<open>defaultExperience\<close> and \<open>isEmulator\<close> (absent
  from the JSON when it was written as \<open>undefined\<close>).
\<close>

datatype persisted = LegacyId string | PersistedAccount string API "bool option"

text \<open>
  What the registry reaches outside the sources. \<open>getExperience(api).shortName\<close>. The two
  connection string parsers, which are handed what the secret store answered and may
  throw; of the descriptor they give, \<open>createTreeItem\<close> reads \<open>fullId\<close> and \<open>accountId\<close>, and
  the descriptor is what the api cache is keyed by. The library's \<open>fullId\<close> getter of a
  node with a given id under the attached accounts root. Whether an account class extends
  \<open>DocDBAccountTreeItemBase\<close>. And the order in which the secret store answers \<open>n\<close>
  reads issued together, a permutation of \<open>0..<n\<close>.
\<close>

record registry_env =
  shortName :: "API \<Rightarrow> string"
  parseMongoConnectionString :: "string option \<Rightarrow> error + string"
  parseDocDBConnectionString :: "string option \<Rightarrow> error + string"
  fullIdOf :: "string \<Rightarrow> string"
  isDocDBAccountTreeItemBase :: "account_class \<Rightarrow> bool"
  answerOrder :: "nat \<Rightarrow> nat list"

text \<open>What the registry does to the outside, in order.\<close>

datatype registry_effect =
    WarningMessage string
  | SetPassword string string
  | DeletePassword string
  | GlobalStateUpdate "persisted list"
  | RemoveTreeItemFromCache string

text \<open>
  The promise \<open>_loadPersistedAccountsTask\<close>: an object with an identity, settled with what
  \<open>loadPersistedAccounts\<close> returned or threw.
\<close>

record load_task =
  task_id :: nat
  outcome :: "error + account list"

text \<open>
  The registry object. \<open>keytar\<close> is \<open>None\<close> when the module could not be fetched, else the
  passwords stored under the extension's service name; \<open>globalState\<close> is the value stored
  under that name, read as the array \<open>JSON.parse\<close> gives. \<open>tasksCreated\<close> counts the calls
  of \<open>loadPersistedAccounts\<close>.
\<close>

record registry =
  attachedAccounts :: "account list option"
  loadPersistedAccountsTask :: load_task
  tasksCreated :: nat
  keytar :: "(string \<rightharpoonup> string) option"
  globalState :: "persisted list option"
  effects :: "registry_effect list"

definition experience_label :: "registry_env \<Rightarrow> string \<Rightarrow> API \<Rightarrow> string" where
  "experience_label env i a = i @ '' ('' @ shortName env a @ '')''"

text \<open>\<open>label || fallback\<close>.\<close>

definition label_or :: "string option \<Rightarrow> string \<Rightarrow> string" where
  "label_or l fallback = (case l of None \<Rightarrow> fallback | Some s \<Rightarrow> if s = [] then fallback else s)"

definition new_account ::
  "registry_env \<Rightarrow> account_class \<Rightarrow> string \<Rightarrow> string \<Rightarrow> string option \<Rightarrow> bool option
     \<Rightarrow> account" where
  "new_account env cls i l cs emu =
     \<lparr>node_id = i, fullId = fullIdOf env i, label = l,
      node_class = cls, connectionString = cs, isEmulator = emu\<rparr>"

text \<open>\<open>createTreeItem(connectionString, api, label?, id?, isEmulator?)\<close>.\<close>

definition createTreeItem ::
  "registry_env \<Rightarrow> string option \<Rightarrow> API \<Rightarrow> string option \<Rightarrow> string option \<Rightarrow> bool option
     \<Rightarrow> error + account" where
  "createTreeItem env cs a l i emu =
     (if a = MongoDB
      then (case (case i of None \<Rightarrow> parseMongoConnectionString env cs | Some given \<Rightarrow> Inr given) of
              Inl e \<Rightarrow> Inl e
            | Inr i' \<Rightarrow>
                Inr (new_account env MongoAccountTreeItem i' (label_or l (experience_label env i' a)) cs emu))
      else (case parseDocDBConnectionString env cs of
              Inl e \<Rightarrow> Inl e
            | Inr accountId \<Rightarrow>
                (case a of
                   Table \<Rightarrow>
                     Inr (new_account env TableAccountTreeItem accountId
                            (label_or l (experience_label env accountId a)) cs emu)
                 | Graph \<Rightarrow>
                     Inr (new_account env GraphAccountTreeItem accountId
                            (label_or l (experience_label env accountId a)) cs emu)
                 | DocumentDB \<Rightarrow>
                     Inr (new_account env DocDBAccountTreeItem accountId
                            (label_or l (experience_label env accountId a)) cs emu)
                 | MongoDB \<Rightarrow> Inl (Error (''Unexpected defaultExperience '' @ dq @ ''MongoDB'' @ dq @ ''.''))
                 | Unrecognized other \<Rightarrow>
                     Inl (Error (''Unexpected defaultExperience '' @ dq @ other @ dq @ ''.'')))))"

text \<open>
  The callback \<open>loadPersistedAccounts\<close> maps over the array, for one element; \<open>store\<close> is the
  secret store.
\<close>

definition load_account :: "registry_env \<Rightarrow> (string \<rightharpoonup> string) \<Rightarrow> persisted \<Rightarrow> error + account" where
  "load_account env store account =
     (case account of
        LegacyId i \<Rightarrow>
          createTreeItem env (store i) MongoDB (Some (experience_label env i MongoDB)) (Some i) (Some False)
      | PersistedAccount i a emu \<Rightarrow>
          createTreeItem env (store i) a
            (Some (if emu = Some True then shortName env a @ '' Emulator''
                   else experience_label env i a))
            (Some i) emu)"

text \<open>
  \<open>Promise.all\<close> over the callbacks. All the reads are issued at once, and each callback
  goes on when its own read is answered: it pushes its node onto the one shared array, or
  throws, which rejects the whole. \<open>results\<close> holds what each callback comes to, by its
  position in the array; \<open>order\<close> is the order in which they come to it. The list is so in
  the order of completion, and the rejection is the first one to happen.
\<close>

fun settle_all :: "(error + account) list \<Rightarrow> nat list \<Rightarrow> error + account list" where
  "settle_all results [] = Inr []"
| "settle_all results (k # order) =
     (if k < length results
      then (case results ! k of
              Inl e \<Rightarrow> Inl e
            | Inr node \<Rightarrow>
                (case settle_all results order of
                   Inl e \<Rightarrow> Inl e
                 | Inr nodes \<Rightarrow> Inr (node # nodes)))
      else settle_all results order)"

definition loadPersistedAccounts ::
  "registry_env \<Rightarrow> persisted list option \<Rightarrow> (string \<rightharpoonup> string) option \<Rightarrow> error + account list" where
  "loadPersistedAccounts env stored kt =
     (case stored of
        None \<Rightarrow> Inr []
      | Some accounts \<Rightarrow>
          (case kt of
             None \<Rightarrow> Inr []
           | Some store \<Rightarrow>
               settle_all (map (load_account env store) accounts)
                 (answerOrder env (length accounts))))"


text \<open>
  \<open>getAttachedAccounts\<close> in its two halves. Up to its \<open>await\<close> it either finds the cached
  list or is left awaiting the task object the field holds at that moment; after the
  \<open>await\<close> it stores what the task was settled with, or the empty list and throws.
\<close>

datatype entered = Cached "account list" | Awaiting load_task

definition getAttachedAccounts_enter :: "registry \<Rightarrow> entered" where
  "getAttachedAccounts_enter r =
     (case attachedAccounts r of
        Some accounts \<Rightarrow> Cached accounts
      | None \<Rightarrow> Awaiting (loadPersistedAccountsTask r))"

definition load_failure :: error where
  "load_failure = Error ''Failed to load persisted Database Accounts. Reattach the accounts manually.''"

definition getAttachedAccounts_resume :: "load_task \<Rightarrow> registry \<Rightarrow> (error + account list) \<times> registry" where
  "getAttachedAccounts_resume t r =
     (case outcome t of
        Inr accounts \<Rightarrow> (Inr accounts, r\<lparr>attachedAccounts := Some accounts\<rparr>)
      | Inl e \<Rightarrow> (Inl load_failure, r\<lparr>attachedAccounts := Some []\<rparr>))"


text \<open>The \<open>clearCache\<close> branch of \<open>loadMoreChildrenImpl\<close>.\<close>

definition clear_cache :: "registry_env \<Rightarrow> registry \<Rightarrow> registry" where
  "clear_cache env r =
     r\<lparr>attachedAccounts := None,
       loadPersistedAccountsTask :=
         \<lparr>task_id = tasksCreated r, outcome = loadPersistedAccounts env (globalState r) (keytar r)\<rparr>,
       tasksCreated := Suc (tasksCreated r)\<rparr>"













subsection \<open>Calls that overlap\<close>

text \<open>
  The extension host runs one task at a time and switches between tasks only at an
  \<open>await\<close>. A caller of the list-accounts accessor (\<open>loadMoreChildrenImpl\<close>, or
  \<open>getAttachedAccounts\<close> itself, which is \<open>Call c False\<close>) runs up to the \<open>await\<close> in
  \<open>getAttachedAccounts\<close>; \<open>Resume c\<close> is its continuation once the task it awaits has
  settled. The scheduler keeps who awaits which task object, and what every finished call
  of \<open>getAttachedAccounts\<close> gave: the caller, the task it awaited (none on a cache hit) and
  the list returned or the error thrown.
\<close>

datatype event = Call nat bool | Resume nat

record scheduler =
  reg :: registry
  waiting :: "(nat \<times> load_task) list"
  finished :: "(nat \<times> load_task option \<times> (error + account list)) list"

fun clears :: "event \<Rightarrow> bool" where
  "clears (Call c clearCache) = clearCache"
| "clears (Resume c) = False"

fun step :: "registry_env \<Rightarrow> event \<Rightarrow> scheduler \<Rightarrow> scheduler" where
  "step env (Call c clearCache) s =
     (let r = (if clearCache then clear_cache env (reg s) else reg s)
      in (case getAttachedAccounts_enter r of
            Cached accounts \<Rightarrow>
              s\<lparr>reg := r, finished := finished s @ [(c, None, Inr accounts)]\<rparr>
          | Awaiting t \<Rightarrow> s\<lparr>reg := r, waiting := waiting s @ [(c, t)]\<rparr>))"
| "step env (Resume c) s =
     (case map_of (waiting s) c of
        None \<Rightarrow> s
      | Some t \<Rightarrow>
          s\<lparr>reg := snd (getAttachedAccounts_resume t (reg s)),
            waiting := remove1 (c, t) (waiting s),
            finished := finished s @ [(c, Some t, fst (getAttachedAccounts_resume t (reg s)))]\<rparr>)"

fun run :: "registry_env \<Rightarrow> event list \<Rightarrow> scheduler \<Rightarrow> scheduler" where
  "run env [] s = s"
| "run env (ev # evs) s = run env evs (step env ev s)"

definition start :: "registry \<Rightarrow> scheduler" where
  "start r = \<lparr>reg = r, waiting = [], finished = []\<rparr>"

text \<open>
  Two invariants of the scheduler within one cache generation, whose task object is \<open>T\<close>.
  \<open>sharing\<close>: the field holds \<open>T\<close>, every waiting caller awaits \<open>T\<close>, and every finished call
  that awaited a task awaited \<open>T\<close> and got what \<open>T\<close> was settled with (its list, or the
  load failure). \<open>failed_generation\<close>, for a task that failed: besides, a call that found
  the cache got the empty list, and either no call has finished and the cache is unset, or
  the cache is the empty list and the first call to finish raised the load failure.
\<close>

definition sharing :: "load_task \<Rightarrow> scheduler \<Rightarrow> bool" where
  "sharing T s =
     (loadPersistedAccountsTask (reg s) = T
      \<and> (\<forall>w\<in>set (waiting s). snd w = T)
      \<and> (\<forall>f\<in>set (finished s). \<forall>t. fst (snd f) = Some t \<longrightarrow>
            t = T \<and> snd (snd f) = (case outcome T of Inr accounts \<Rightarrow> Inr accounts
                                    | Inl e \<Rightarrow> Inl load_failure)))"









section \<open>Properties of the document operations\<close>

text \<open>
  C2 (as amended). Update of a document. When \<open>newDocument["_id"]\<close> is missing or falsy
  (\<open>undefined\<close>, \<open>null\<close>, the empty string, zero, \<open>false\<close>), the update fails with the
  "field is required" error and no call reaches the collection. When it is truthy, exactly
  one \<open>updateOne\<close> is issued, filtered by that \<open>_id\<close>, with a payload that is the document
  without its \<open>_id\<close> key and with every other field unchanged; a \<open>modifiedCount\<close> other
  than one raises the "Failed to update" error, a count of one returns the new document,
  and a rejection of the driver is passed on.
\<close>

theorem update_keyed_by_truthy_id:
  "(\<not> truthy (get_field d ''_id'') \<longrightarrow>
      MongoDocumentTreeItem_update coll d =
        (Inl (Error (''The '' @ dq @ ''_id'' @ dq @ '' field is required to update a document.'')), []))
   \<and> (truthy (get_field d ''_id'') \<longrightarrow>
        snd (MongoDocumentTreeItem_update coll d)
          = [UpdateOne (get_field d ''_id'') (omit d ''_id'')]
        \<and> ''_id'' \<notin> fst ` set (omit d ''_id'')
        \<and> (\<forall>k. k \<noteq> ''_id'' \<longrightarrow> map_of (omit d ''_id'') k = map_of d k)
        \<and> (\<forall>n. updateOne coll (get_field d ''_id'') (omit d ''_id'') = Inr n \<and> n \<noteq> 1 \<longrightarrow>
              fst (MongoDocumentTreeItem_update coll d)
                = Inl (Error (''Failed to update document with _id '' @ sq
                               @ String (get_field d ''_id'') @ sq @ ''.'')))
        \<and> (updateOne coll (get_field d ''_id'') (omit d ''_id'') = Inr 1 \<longrightarrow>
              fst (MongoDocumentTreeItem_update coll d) = Inr d)
        \<and> (\<forall>e. updateOne coll (get_field d ''_id'') (omit d ''_id'') = Inl e \<longrightarrow>
              fst (MongoDocumentTreeItem_update coll d) = Inl e))"
proof -
  have omit_map: "map_of (omit d ''_id'') k = map_of d k" if "k \<noteq> ''_id''" for k
    using that unfolding omit_def by (induction d) auto
  have omit_keys: "''_id'' \<notin> fst ` set (omit d ''_id'')"
    unfolding omit_def by auto
  show ?thesis
    using omit_map omit_keys
    by (auto simp: MongoDocumentTreeItem_update_def Let_def split: sum.splits)
qed

text \<open>
  The theorem at a document without \<open>_id\<close>, and at \<open>{_id: "a1", name: "x"}\<close> on a
  collection that reports no modified row.
\<close>

theorem update_keyed_by_truthy_id_witness:
  "\<not> truthy (get_field [(''name'', Str ''x'')] ''_id'')
   \<and> MongoDocumentTreeItem_update (collection_reporting 1 None) [(''name'', Str ''x'')]
       = (Inl (Error (''The '' @ dq @ ''_id'' @ dq @ '' field is required to update a document.'')), [])
   \<and> truthy (get_field [(''_id'', Str ''a1''), (''name'', Str ''x'')] ''_id'')
   \<and> updateOne (collection_reporting 0 None) (Str ''a1'') [(''name'', Str ''x'')] = Inr 0
   \<and> snd (MongoDocumentTreeItem_update (collection_reporting 0 None) [(''_id'', Str ''a1''), (''name'', Str ''x'')])
       = [UpdateOne (Str ''a1'') [(''name'', Str ''x'')]]
   \<and> fst (MongoDocumentTreeItem_update (collection_reporting 0 None) [(''_id'', Str ''a1''), (''name'', Str ''x'')])
       = Inl (Error (''Failed to update document with _id '' @ sq @ ''a1'' @ sq @ ''.''))"
  using update_keyed_by_truthy_id [of "[(''name'', Str ''x'')]" "collection_reporting 1 None"]
    update_keyed_by_truthy_id [of "[(''_id'', Str ''a1''), (''name'', Str ''x'')]" "collection_reporting 0 None"]
  by (simp add: get_field_def omit_def collection_reporting_def)

text \<open>
  C2 as stated fails: the document \<open>{_id: "", name: "x"}\<close> has an \<open>_id\<close> field, of the
  type the interface asks for, yet the update is refused as if it had none and no
  \<open>updateOne\<close> is issued.
\<close>

theorem update_present_falsy_id_counterexample:
  "''_id'' \<in> fst ` set [(''_id'', Str ''''), (''name'', Str ''x'')]
   \<and> MongoDocumentTreeItem_update (collection_reporting 1 None) [(''_id'', Str ''''), (''name'', Str ''x'')]
       = (Inl (Error (''The '' @ dq @ ''_id'' @ dq @ '' field is required to update a document.'')), [])"
  by (simp add: MongoDocumentTreeItem_update_def get_field_def)

text \<open>
  C3. Delete of a document. The modal warning is the first call made, before anything
  reaches the collection. Any answer but the delete button (cancel, or closing the dialog)
  throws \<open>UserCancelledError\<close>, which is no plain \<open>Error\<close>, and the warning is then the only
  call: no \<open>deleteOne\<close> is issued. On confirmation exactly one \<open>deleteOne\<close> follows, filtered
  by the document's \<open>_id\<close>; a \<open>deletedCount\<close> other than one (an absent count too) raises
  the "Failed to delete" error, a count of one succeeds, and a rejection of the driver is
  passed on.
\<close>

theorem delete_asks_first:
  "(\<exists>rest. snd (MongoDocumentTreeItem_deleteTreeItemImpl ui coll node)
              = ShowWarningMessage (delete_message node) # rest)
   \<and> (ui (delete_message node) \<noteq> DeleteResponse \<longrightarrow>
        MongoDocumentTreeItem_deleteTreeItemImpl ui coll node
          = (Inl UserCancelledError, [ShowWarningMessage (delete_message node)]))
   \<and> (ui (delete_message node) = DeleteResponse \<longrightarrow>
        snd (MongoDocumentTreeItem_deleteTreeItemImpl ui coll node)
          = [ShowWarningMessage (delete_message node), DeleteOne (get_field (node_document node) ''_id'')]
        \<and> (\<forall>n. deleteOne coll (get_field (node_document node) ''_id'') = Inr n \<and> n \<noteq> Some 1 \<longrightarrow>
              fst (MongoDocumentTreeItem_deleteTreeItemImpl ui coll node)
                = Inl (Error (''Failed to delete document with _id '' @ sq
                               @ String (get_field (node_document node) ''_id'') @ sq @ ''.'')))
        \<and> (deleteOne coll (get_field (node_document node) ''_id'') = Inr (Some 1) \<longrightarrow>
              fst (MongoDocumentTreeItem_deleteTreeItemImpl ui coll node) = Inr ())
        \<and> (\<forall>e. deleteOne coll (get_field (node_document node) ''_id'') = Inl e \<longrightarrow>
              fst (MongoDocumentTreeItem_deleteTreeItemImpl ui coll node) = Inl e))
   \<and> (\<forall>m. UserCancelledError \<noteq> Error m)"
  by (auto simp: MongoDocumentTreeItem_deleteTreeItemImpl_def Let_def split: sum.splits)

text \<open>
  The theorem at a user who cancels, and at a user who confirms on a collection that
  reports no deleted row.
\<close>

theorem delete_asks_first_witness:
  "answering Cancel (delete_message \<lparr>node_label = ''a1'', node_document = [(''_id'', Str ''a1'')]\<rparr>)
     \<noteq> DeleteResponse
   \<and> MongoDocumentTreeItem_deleteTreeItemImpl (answering Cancel) (collection_reporting 1 (Some 1))
        \<lparr>node_label = ''a1'', node_document = [(''_id'', Str ''a1'')]\<rparr>
      = (Inl UserCancelledError,
         [ShowWarningMessage (''Are you sure you want to delete document '' @ sq @ ''a1'' @ sq @ ''?'')])
   \<and> answering DeleteResponse (delete_message \<lparr>node_label = ''a1'', node_document = [(''_id'', Str ''a1'')]\<rparr>)
     = DeleteResponse
   \<and> deleteOne (collection_reporting 1 (Some 0)) (Str ''a1'') = Inr (Some 0)
   \<and> snd (MongoDocumentTreeItem_deleteTreeItemImpl (answering DeleteResponse) (collection_reporting 1 (Some 0))
        \<lparr>node_label = ''a1'', node_document = [(''_id'', Str ''a1'')]\<rparr>)
      = [ShowWarningMessage (''Are you sure you want to delete document '' @ sq @ ''a1'' @ sq @ ''?''),
         DeleteOne (Str ''a1'')]
   \<and> fst (MongoDocumentTreeItem_deleteTreeItemImpl (answering DeleteResponse) (collection_reporting 1 (Some 0))
        \<lparr>node_label = ''a1'', node_document = [(''_id'', Str ''a1'')]\<rparr>)
      = Inl (Error (''Failed to delete document with _id '' @ sq @ ''a1'' @ sq @ ''.''))"
  using delete_asks_first [of "answering Cancel" "collection_reporting 1 (Some 1)"
          "\<lparr>node_label = ''a1'', node_document = [(''_id'', Str ''a1'')]\<rparr>"]
    delete_asks_first [of "answering DeleteResponse" "collection_reporting 1 (Some 0)"
          "\<lparr>node_label = ''a1'', node_document = [(''_id'', Str ''a1'')]\<rparr>"]
  by (simp add: answering_def collection_reporting_def get_field_def delete_message_def)

section \<open>Properties of the database listing\<close>

text \<open>The two ways through the \<open>try\<close> block once the connection is open.\<close>

lemma try_embedded:
  assumes "connectionString acct = Some cs" and "cs \<noteq> []"
    and "connectToMongoClient client cs = Inr d"
    and "getDatabaseNameFromConnectionString client cs = Some n" and "n \<noteq> []"
    and "isEmulator acct \<noteq> Some True"
  shows "loadMoreChildren_try client acct
           = (Inr [database_node acct \<lparr>name = Some n, empty = Some False\<rparr>], Some d, [Connect cs])"
  using assms by (simp add: loadMoreChildren_try_def admin_and_empty_def)

lemma try_listing:
  assumes "connectionString acct = Some cs" and "cs \<noteq> []"
    and "connectToMongoClient client cs = Inr d"
    and "\<not> (\<exists>n. getDatabaseNameFromConnectionString client cs = Some n \<and> n \<noteq> []
                \<and> isEmulator acct \<noteq> Some True)"
  shows "loadMoreChildren_try client acct
           = (case listDatabases client d of
                Inl e \<Rightarrow> (Inl e, Some d, [Connect cs, ListDatabases d])
              | Inr databases \<Rightarrow>
                  (Inr (map (database_node acct)
                         (filter (\<lambda>database. \<not> admin_and_empty database) databases)),
                   Some d, [Connect cs, ListDatabases d]))"
  using assms by (auto simp: loadMoreChildren_try_def split: option.splits sum.splits)

text \<open>
  C5 (as amended). For an account that is not flagged as an emulator, whose connection
  string is set, whose connection opens, and whose connection string embeds a database
  name (\<open>getDatabaseNameFromConnectionString\<close> gives a non-empty name): the children are
  exactly one database node bearing that name, \<open>listDatabases\<close> is never called (the only
  calls are the connect and the close), and this is so whatever the listing would return.
\<close>

theorem embedded_database_is_the_only_child:
  assumes "connectionString acct = Some cs" and "cs \<noteq> []"
    and "connectToMongoClient client cs = Inr d"
    and "getDatabaseNameFromConnectionString client cs = Some n" and "n \<noteq> []"
    and "isEmulator acct \<noteq> Some True"
  shows "\<forall>listing. MongoAccountTreeItem_loadMoreChildrenImpl (client\<lparr>listDatabases := listing\<rparr>) acct
           = (Inr [\<lparr>parent_id = node_id acct, databaseName = Some n,
                    database_connectionString = Some cs\<rparr>],
              [Connect cs, Close d])"
proof
  fix listing
  have "loadMoreChildren_try (client\<lparr>listDatabases := listing\<rparr>) acct
          = (Inr [database_node acct \<lparr>name = Some n, empty = Some False\<rparr>], Some d, [Connect cs])"
    using assms by (intro try_embedded) simp_all
  then show "MongoAccountTreeItem_loadMoreChildrenImpl (client\<lparr>listDatabases := listing\<rparr>) acct
           = (Inr [\<lparr>parent_id = node_id acct, databaseName = Some n,
                    database_connectionString = Some cs\<rparr>],
              [Connect cs, Close d])"
    using assms(1)
    by (simp add: MongoAccountTreeItem_loadMoreChildrenImpl_def loadMoreChildren_finally_def
        database_node_def)
qed

text \<open>
  The theorem at a connection string embedding \<open>orders\<close>, on a store whose listing would
  give \<open>sales\<close>.
\<close>

theorem embedded_database_is_the_only_child_witness:
  "MongoAccountTreeItem_loadMoreChildrenImpl
     ((sample_client (Inr 7) (Some ''orders'') (Inl (Error ''not authorized'')))
        \<lparr>listDatabases := (\<lambda>d. Inr [\<lparr>name = Some ''sales'', empty = Some False\<rparr>])\<rparr>)
     (sample_account ''acct1'' (Some ''mongodb://host/orders'') None)
   = (Inr [\<lparr>parent_id = ''acct1'', databaseName = Some ''orders'',
            database_connectionString = Some ''mongodb://host/orders''\<rparr>],
      [Connect ''mongodb://host/orders'', Close 7])"
  using embedded_database_is_the_only_child
    [of "sample_account ''acct1'' (Some ''mongodb://host/orders'') None" "''mongodb://host/orders''"
        "sample_client (Inr 7) (Some ''orders'') (Inl (Error ''not authorized''))" 7 "''orders''"]
  by (simp add: sample_account_def sample_client_def)

text \<open>
  C5 as stated fails: for an emulator account the guard \<open>!this.root.isEmulator\<close> sends the
  listing to \<open>listDatabases\<close> although the connection string embeds \<open>orders\<close>; the child is
  what the listing gives.
\<close>

theorem embedded_database_emulator_counterexample:
  "isEmulator (sample_account ''emu'' (Some ''mongodb://localhost:10255/orders'') (Some True)) = Some True
   \<and> getDatabaseNameFromConnectionString
        (sample_client (Inr 7) (Some ''orders'') (Inr [\<lparr>name = Some ''sales'', empty = Some False\<rparr>]))
        ''mongodb://localhost:10255/orders'' = Some ''orders''
   \<and> MongoAccountTreeItem_loadMoreChildrenImpl
        (sample_client (Inr 7) (Some ''orders'') (Inr [\<lparr>name = Some ''sales'', empty = Some False\<rparr>]))
        (sample_account ''emu'' (Some ''mongodb://localhost:10255/orders'') (Some True))
      = (Inr [\<lparr>parent_id = ''emu'', databaseName = Some ''sales'',
               database_connectionString = Some ''mongodb://localhost:10255/orders''\<rparr>],
         [Connect ''mongodb://localhost:10255/orders'', ListDatabases 7, Close 7])"
  by (simp add: MongoAccountTreeItem_loadMoreChildrenImpl_def loadMoreChildren_try_def
      loadMoreChildren_finally_def sample_account_def sample_client_def database_node_def
      admin_and_empty_def toLowerCase_def toLowerCase_char_def)

text \<open>
  C6 (as amended). When the databases are listed through \<open>listDatabases\<close> (no name embedded
  in the connection string, or an emulator account) and the listing succeeds, the children
  are the nodes of the listed databases, in order, except those whose name is \<open>admin\<close> in
  any letter case and which report themselves empty. A non-empty \<open>admin\<close>, one whose
  \<open>empty\<close> is absent, a database without a name and every database of another name are kept.
\<close>

theorem admin_listed_unless_empty:
  assumes "connectionString acct = Some cs" and "cs \<noteq> []"
    and "connectToMongoClient client cs = Inr d"
    and "\<not> (\<exists>n. getDatabaseNameFromConnectionString client cs = Some n \<and> n \<noteq> []
                \<and> isEmulator acct \<noteq> Some True)"
    and "listDatabases client d = Inr databases"
  shows "MongoAccountTreeItem_loadMoreChildrenImpl client acct
           = (Inr (map (database_node acct)
                    (filter (\<lambda>database. \<not> (\<exists>n. name database = Some n \<and> toLowerCase n = ''admin''
                                               \<and> empty database = Some True))
                       databases)),
              [Connect cs, ListDatabases d, Close d])"
proof -
  have same: "admin_and_empty database
                = (\<exists>n. name database = Some n \<and> toLowerCase n = ''admin'' \<and> empty database = Some True)"
    for database
    by (auto simp: admin_and_empty_def toLowerCase_def split: option.splits)
  show ?thesis
    using try_listing [OF assms(1-4)] assms(5)
    by (simp add: MongoAccountTreeItem_loadMoreChildrenImpl_def loadMoreChildren_finally_def same)
qed

text \<open>
  The theorem at the listing \<open>[{admin, empty}, {sales}]\<close>, and at a non-empty \<open>admin\<close> next
  to an unnamed empty database.
\<close>

theorem admin_listed_unless_empty_witness:
  "MongoAccountTreeItem_loadMoreChildrenImpl
     (sample_client (Inr 7) None
        (Inr [\<lparr>name = Some ''admin'', empty = Some True\<rparr>, \<lparr>name = Some ''sales'', empty = Some False\<rparr>]))
     (sample_account ''acct1'' (Some ''mongodb://host'') (Some False))
   = (Inr [\<lparr>parent_id = ''acct1'', databaseName = Some ''sales'',
            database_connectionString = Some ''mongodb://host''\<rparr>],
      [Connect ''mongodb://host'', ListDatabases 7, Close 7])
   \<and> MongoAccountTreeItem_loadMoreChildrenImpl
     (sample_client (Inr 7) None
        (Inr [\<lparr>name = Some ''admin'', empty = Some False\<rparr>, \<lparr>name = None, empty = Some True\<rparr>]))
     (sample_account ''acct1'' (Some ''mongodb://host'') (Some False))
   = (Inr [\<lparr>parent_id = ''acct1'', databaseName = Some ''admin'',
            database_connectionString = Some ''mongodb://host''\<rparr>,
           \<lparr>parent_id = ''acct1'', databaseName = None,
            database_connectionString = Some ''mongodb://host''\<rparr>],
      [Connect ''mongodb://host'', ListDatabases 7, Close 7])"
  using admin_listed_unless_empty
    [of "sample_account ''acct1'' (Some ''mongodb://host'') (Some False)" "''mongodb://host''"
        "sample_client (Inr 7) None
          (Inr [\<lparr>name = Some ''admin'', empty = Some True\<rparr>, \<lparr>name = Some ''sales'', empty = Some False\<rparr>])"
        7 "[\<lparr>name = Some ''admin'', empty = Some True\<rparr>, \<lparr>name = Some ''sales'', empty = Some False\<rparr>]"]
    admin_listed_unless_empty
    [of "sample_account ''acct1'' (Some ''mongodb://host'') (Some False)" "''mongodb://host''"
        "sample_client (Inr 7) None
          (Inr [\<lparr>name = Some ''admin'', empty = Some False\<rparr>, \<lparr>name = None, empty = Some True\<rparr>])"
        7 "[\<lparr>name = Some ''admin'', empty = Some False\<rparr>, \<lparr>name = None, empty = Some True\<rparr>]"]
  by (simp add: sample_account_def sample_client_def database_node_def toLowerCase_def
      toLowerCase_char_def)

text \<open>
  C6 as stated fails: the comparison is made on \<open>name.toLowerCase()\<close>, so an empty database
  named \<open>ADMIN\<close>, which is not the name \<open>admin\<close>, is left out as well.
\<close>

theorem admin_other_case_counterexample:
  "''ADMIN'' \<noteq> ''admin''
   \<and> MongoAccountTreeItem_loadMoreChildrenImpl
     (sample_client (Inr 7) None
        (Inr [\<lparr>name = Some ''ADMIN'', empty = Some True\<rparr>, \<lparr>name = Some ''sales'', empty = Some False\<rparr>]))
     (sample_account ''acct1'' (Some ''mongodb://host'') (Some False))
   = (Inr [\<lparr>parent_id = ''acct1'', databaseName = Some ''sales'',
            database_connectionString = Some ''mongodb://host''\<rparr>],
      [Connect ''mongodb://host'', ListDatabases 7, Close 7])"
  by (simp add: MongoAccountTreeItem_loadMoreChildrenImpl_def loadMoreChildren_try_def
      loadMoreChildren_finally_def sample_account_def sample_client_def database_node_def
      admin_and_empty_def toLowerCase_def toLowerCase_char_def)

text \<open>
  C7 (as amended). Listing the children of an account, for every client and account. An
  error of the connect, of the listing or of the missing connection string is thrown on as
  follows: when the account is flagged as an emulator and the message the library parses
  from the error (\<open>parseError(error).message\<close>) contains \<open>ECONNREFUSED\<close>, the same error
  with its message set to the emulator guidance, a newline and that parsed message;
  otherwise the error as it is. A connection that was opened is closed by the last call of
  the listing, on success and on error, and nothing is closed before; when the connect
  fails, or the connection string is missing, there is no connection and no close.
\<close>

theorem emulator_refusal_explained_and_connection_closed:
  "(\<forall>cs err. connectionString acct = Some cs \<and> cs \<noteq> []
              \<and> connectToMongoClient client cs = Inl err \<longrightarrow>
        MongoAccountTreeItem_loadMoreChildrenImpl client acct
          = (Inl (if isEmulator acct = Some True
                     \<and> includes_str (parseError_message client err) ''ECONNREFUSED''
                  then with_message err (emulator_guidance @ parseError_message client err)
                  else err),
             [Connect cs]))
   \<and> (\<forall>cs d err. connectionString acct = Some cs \<and> cs \<noteq> []
              \<and> connectToMongoClient client cs = Inr d
              \<and> \<not> (\<exists>n. getDatabaseNameFromConnectionString client cs = Some n \<and> n \<noteq> []
                        \<and> isEmulator acct \<noteq> Some True)
              \<and> listDatabases client d = Inl err \<longrightarrow>
        MongoAccountTreeItem_loadMoreChildrenImpl client acct
          = (Inl (if isEmulator acct = Some True
                     \<and> includes_str (parseError_message client err) ''ECONNREFUSED''
                  then with_message err (emulator_guidance @ parseError_message client err)
                  else err),
             [Connect cs, ListDatabases d, Close d]))
   \<and> (connectionString acct = None \<or> connectionString acct = Some [] \<longrightarrow>
        MongoAccountTreeItem_loadMoreChildrenImpl client acct
          = (Inl (if isEmulator acct = Some True
                     \<and> includes_str (parseError_message client (Error ''Missing connection string''))
                          ''ECONNREFUSED''
                  then Error (emulator_guidance
                              @ parseError_message client (Error ''Missing connection string''))
                  else Error ''Missing connection string''),
             []))
   \<and> (\<forall>cs d. connectionString acct = Some cs \<and> cs \<noteq> [] \<and> connectToMongoClient client cs = Inr d \<longrightarrow>
        (\<exists>calls. snd (MongoAccountTreeItem_loadMoreChildrenImpl client acct)
                   = Connect cs # calls @ [Close d]
                 \<and> (\<forall>d'. Close d' \<notin> set calls)))
   \<and> (\<forall>old m. with_message (Error old) m = Error m)"
proof (intro conjI allI impI)
  fix cs err
  assume "connectionString acct = Some cs \<and> cs \<noteq> [] \<and> connectToMongoClient client cs = Inl err"
  then show "MongoAccountTreeItem_loadMoreChildrenImpl client acct
          = (Inl (if isEmulator acct = Some True
                     \<and> includes_str (parseError_message client err) ''ECONNREFUSED''
                  then with_message err (emulator_guidance @ parseError_message client err)
                  else err),
             [Connect cs])"
    by (simp add: MongoAccountTreeItem_loadMoreChildrenImpl_def loadMoreChildren_try_def
        loadMoreChildren_catch_def loadMoreChildren_finally_def Let_def)
next
  fix cs d err
  assume h: "connectionString acct = Some cs \<and> cs \<noteq> []
              \<and> connectToMongoClient client cs = Inr d
              \<and> \<not> (\<exists>n. getDatabaseNameFromConnectionString client cs = Some n \<and> n \<noteq> []
                        \<and> isEmulator acct \<noteq> Some True)
              \<and> listDatabases client d = Inl err"
  then have "loadMoreChildren_try client acct
           = (case listDatabases client d of
                Inl e \<Rightarrow> (Inl e, Some d, [Connect cs, ListDatabases d])
              | Inr databases \<Rightarrow>
                  (Inr (map (database_node acct)
                         (filter (\<lambda>database. \<not> admin_and_empty database) databases)),
                   Some d, [Connect cs, ListDatabases d]))"
    by (intro try_listing) simp_all
  with h show "MongoAccountTreeItem_loadMoreChildrenImpl client acct
          = (Inl (if isEmulator acct = Some True
                     \<and> includes_str (parseError_message client err) ''ECONNREFUSED''
                  then with_message err (emulator_guidance @ parseError_message client err)
                  else err),
             [Connect cs, ListDatabases d, Close d])"
    by (simp add: MongoAccountTreeItem_loadMoreChildrenImpl_def
        loadMoreChildren_catch_def loadMoreChildren_finally_def Let_def)
next
  assume "connectionString acct = None \<or> connectionString acct = Some []"
  then show "MongoAccountTreeItem_loadMoreChildrenImpl client acct
          = (Inl (if isEmulator acct = Some True
                     \<and> includes_str (parseError_message client (Error ''Missing connection string''))
                          ''ECONNREFUSED''
                  then Error (emulator_guidance
                              @ parseError_message client (Error ''Missing connection string''))
                  else Error ''Missing connection string''),
             [])"
    by (auto simp: MongoAccountTreeItem_loadMoreChildrenImpl_def loadMoreChildren_try_def
        loadMoreChildren_catch_def loadMoreChildren_finally_def Let_def)
next
  fix cs d
  assume c: "connectionString acct = Some cs \<and> cs \<noteq> [] \<and> connectToMongoClient client cs = Inr d"
  have "snd (MongoAccountTreeItem_loadMoreChildrenImpl client acct) = Connect cs # [] @ [Close d]
        \<or> snd (MongoAccountTreeItem_loadMoreChildrenImpl client acct)
            = Connect cs # [ListDatabases d] @ [Close d]"
    using c
    by (auto simp: MongoAccountTreeItem_loadMoreChildrenImpl_def loadMoreChildren_try_def
        loadMoreChildren_finally_def split: option.splits sum.splits)
  then show "\<exists>calls. snd (MongoAccountTreeItem_loadMoreChildrenImpl client acct)
                       = Connect cs # calls @ [Close d]
                     \<and> (\<forall>d'. Close d' \<notin> set calls)"
    by (metis empty_iff empty_set mongo_call.distinct(5) set_ConsD)
next
  fix old m
  show "with_message (Error old) m = Error m" by simp
qed

text \<open>
  The theorem at an emulator whose port refuses the connection, with a plain message and
  with a structured one that the library unpacks; at one whose listing is refused after
  the connection opened; and at one without a connection string.
\<close>

theorem emulator_refusal_explained_and_connection_closed_witness:
  "MongoAccountTreeItem_loadMoreChildrenImpl
     (sample_client (Inl (Error ''connect ECONNREFUSED 127.0.0.1:10255'')) None (Inr []))
     (sample_account ''emu'' (Some ''mongodb://localhost:10255/?ssl=true'') (Some True))
   = (Inl (Error (''Unable to reach emulator. Please ensure it is started and writing to the appropriate port. Then try again.''
                  @ [CHR 0x0A] @ ''connect ECONNREFUSED 127.0.0.1:10255'')),
      [Connect ''mongodb://localhost:10255/?ssl=true''])
   \<and> parseError_message (sample_client (Inl (Error structured_refusal)) None (Inr []))
        (Error structured_refusal) = ''connect ECONNREFUSED 127.0.0.1:10255''
   \<and> MongoAccountTreeItem_loadMoreChildrenImpl
     (sample_client (Inl (Error structured_refusal)) None (Inr []))
     (sample_account ''emu'' (Some ''mongodb://localhost:10255/?ssl=true'') (Some True))
   = (Inl (Error (''Unable to reach emulator. Please ensure it is started and writing to the appropriate port. Then try again.''
                  @ [CHR 0x0A] @ ''connect ECONNREFUSED 127.0.0.1:10255'')),
      [Connect ''mongodb://localhost:10255/?ssl=true''])
   \<and> MongoAccountTreeItem_loadMoreChildrenImpl
     (sample_client (Inr 7) None (Inl (Error ''ECONNREFUSED'')))
     (sample_account ''emu'' (Some ''mongodb://localhost:10255/?ssl=true'') (Some True))
   = (Inl (Error (''Unable to reach emulator. Please ensure it is started and writing to the appropriate port. Then try again.''
                  @ [CHR 0x0A] @ ''ECONNREFUSED'')),
      [Connect ''mongodb://localhost:10255/?ssl=true'', ListDatabases 7, Close 7])
   \<and> MongoAccountTreeItem_loadMoreChildrenImpl
     (sample_client (Inr 7) None (Inr []))
     (sample_account ''emu'' None (Some True))
   = (Inl (Error ''Missing connection string''), [])"
  using emulator_refusal_explained_and_connection_closed
    [of "sample_account ''emu'' (Some ''mongodb://localhost:10255/?ssl=true'') (Some True)"
        "sample_client (Inl (Error ''connect ECONNREFUSED 127.0.0.1:10255'')) None (Inr [])"]
    emulator_refusal_explained_and_connection_closed
    [of "sample_account ''emu'' (Some ''mongodb://localhost:10255/?ssl=true'') (Some True)"
        "sample_client (Inl (Error structured_refusal)) None (Inr [])"]
    emulator_refusal_explained_and_connection_closed
    [of "sample_account ''emu'' (Some ''mongodb://localhost:10255/?ssl=true'') (Some True)"
        "sample_client (Inr 7) None (Inl (Error ''ECONNREFUSED''))"]
    emulator_refusal_explained_and_connection_closed
    [of "sample_account ''emu'' None (Some True)" "sample_client (Inr 7) None (Inr [])"]
  by (simp add: sample_account_def sample_client_def emulator_guidance_def sample_parseError_def
      structured_refusal_def dq_def)

text \<open>
  C7 as stated fails: a connection failure of an emulator account whose parsed message
  does not contain \<open>ECONNREFUSED\<close> (a timeout here) is thrown on without the guidance.
\<close>

theorem emulator_other_connection_failure_counterexample:
  "isEmulator (sample_account ''emu'' (Some ''mongodb://localhost:10255/?ssl=true'') (Some True)) = Some True
   \<and> connectToMongoClient (sample_client (Inl (Error ''connection timed out'')) None (Inr []))
        ''mongodb://localhost:10255/?ssl=true'' = Inl (Error ''connection timed out'')
   \<and> parseError_message (sample_client (Inl (Error ''connection timed out'')) None (Inr []))
        (Error ''connection timed out'') = ''connection timed out''
   \<and> MongoAccountTreeItem_loadMoreChildrenImpl
        (sample_client (Inl (Error ''connection timed out'')) None (Inr []))
        (sample_account ''emu'' (Some ''mongodb://localhost:10255/?ssl=true'') (Some True))
      = (Inl (Error ''connection timed out''), [Connect ''mongodb://localhost:10255/?ssl=true''])"
  by (simp add: MongoAccountTreeItem_loadMoreChildrenImpl_def loadMoreChildren_try_def
      loadMoreChildren_catch_def loadMoreChildren_finally_def Let_def sample_account_def sample_client_def
      sample_parseError_def structured_refusal_def dq_def)

section \<open>Properties of the registry\<close>

subsection \<open>Loading the persisted accounts\<close>










subsection \<open>Attaching and detaching\<close>











subsection \<open>Overlapping calls of the list-accounts accessor\<close>



lemma resume_task:
  "loadPersistedAccountsTask (snd (getAttachedAccounts_resume t r)) = loadPersistedAccountsTask r"
  by (simp add: getAttachedAccounts_resume_def split: sum.splits)

lemma resume_result:
  "fst (getAttachedAccounts_resume t r)
     = (case outcome t of Inr accounts \<Rightarrow> Inr accounts | Inl e \<Rightarrow> Inl load_failure)"
  by (simp add: getAttachedAccounts_resume_def split: sum.splits)

lemma sharing_step:
  assumes "sharing T s" and "\<not> clears ev"
  shows "sharing T (step env ev s)"
proof (cases ev)
  case (Call c clearCache)
  with assms(2) have [simp]: "clearCache = False" by simp
  show ?thesis
    using assms(1) unfolding Call
    by (cases "attachedAccounts (reg s)")
       (auto simp: sharing_def getAttachedAccounts_enter_def Let_def)
next
  case (Resume c)
  show ?thesis
  proof (cases "map_of (waiting s) c")
    case None
    with assms(1) show ?thesis unfolding Resume by simp
  next
    case (Some t)
    then have "(c, t) \<in> set (waiting s)" by (rule map_of_SomeD)
    with assms(1) have t: "t = T" by (auto simp: sharing_def)
    have sub: "set (remove1 (c, t) (waiting s)) \<subseteq> set (waiting s)" by (rule set_remove1_subset)
    show ?thesis
      using assms(1) Some sub unfolding Resume t
      by (auto simp: sharing_def resume_task resume_result)
  qed
qed

lemma sharing_run:
  "sharing T s \<Longrightarrow> \<forall>ev\<in>set evs. \<not> clears ev \<Longrightarrow> sharing T (run env evs s)"
  by (induction evs arbitrary: s) (simp_all add: sharing_step)

lemma sharing_start: "sharing (loadPersistedAccountsTask r) (start r)"
  by (simp add: sharing_def start_def)


















end
